theory Spec2Isabelle
  imports Main
begin

section \<open>Text helpers\<close>

text \<open>
  Python's \<open>dict.get(key, default)\<close> on a key that is either absent or holds a value of the
  expected type.
\<close>

definition get_or :: "'a \<Rightarrow> 'a option \<Rightarrow> 'a" where
  "get_or dflt v = (case v of None \<Rightarrow> dflt | Some x \<Rightarrow> x)"

text \<open>Decimal rendering of a natural number, as \<open>str(n)\<close> and \<open>{n:02d}\<close> do.\<close>

definition digit_char :: "nat \<Rightarrow> char" where
  "digit_char d = ''0123456789'' ! d"

fun show_nat :: "nat \<Rightarrow> string" where
  "show_nat n = (if n < 10 then [digit_char n] else show_nat (n div 10) @ [digit_char (n mod 10)])"

declare show_nat.simps [simp del]

definition zero_pad :: "nat \<Rightarrow> nat \<Rightarrow> string" where
  "zero_pad w n = replicate (w - length (show_nat n)) (CHR ''0'') @ show_nat n"

text \<open>\<open>s.split(c)\<close> for a one-character separator.\<close>

fun split_char :: "char \<Rightarrow> string \<Rightarrow> string list" where
  "split_char c [] = [[]]"
| "split_char c (x # xs) =
     (if x = c then [] # split_char c xs
      else (case split_char c xs of
              [] \<Rightarrow> [[x]]
            | w # ws \<Rightarrow> (x # w) # ws))"

text \<open>\<open>int(s)\<close> on a string of decimal digits; anything else raises \<open>ValueError\<close>.\<close>

definition digit_val :: "char \<Rightarrow> nat option" where
  "digit_val c = (let n = (of_char c :: nat) in if 48 \<le> n \<and> n \<le> 57 then Some (n - 48) else None)"

fun digits_val :: "nat \<Rightarrow> string \<Rightarrow> nat option" where
  "digits_val acc [] = Some acc"
| "digits_val acc (c # cs) =
     (case digit_val c of None \<Rightarrow> None | Some d \<Rightarrow> digits_val (10 * acc + d) cs)"

definition int_of_str :: "string \<Rightarrow> nat option" where
  "int_of_str s = (if s = [] then None else digits_val 0 s)"

section \<open>The catalog store (healthcare\_services.db)\<close>

text \<open>
  A time of day as hour and minute; the source keeps it as the text \<open>HH:MM:00\<close> and works on
  the two numbers.
\<close>

type_synonym hm = "nat \<times> nat"

definition mins :: "hm \<Rightarrow> nat" where
  "mins t = 60 * fst t + snd t"

definition hm_str :: "hm \<Rightarrow> string" where
  "hm_str t = zero_pad 2 (fst t) @ '':'' @ zero_pad 2 (snd t) @ '':00''"

record doctor =
  d_name :: string
  d_specialty :: string
  d_phone :: string
  d_email :: string
  d_clinic_id :: nat
  available_days :: "string list"
  working_hours_start :: string
  working_hours_end :: string
  working_hours_display :: string

record time_slot =
  slot_doctor_id :: nat
  day_of_week :: nat
  start_time :: hm
  end_time :: hm
  is_available :: bool
  slot_type :: string

subsection \<open>Seed data of \<open>create_services_database\<close>\<close>

definition mk_doctor ::
  "string \<Rightarrow> string \<Rightarrow> string \<Rightarrow> string \<Rightarrow> nat \<Rightarrow> string list \<Rightarrow> string \<Rightarrow> string \<Rightarrow> string \<Rightarrow> doctor" where
  "mk_doctor n sp ph em c days ws we wd =
     \<lparr>d_name = n, d_specialty = sp, d_phone = ph, d_email = em, d_clinic_id = c,
      available_days = days, working_hours_start = ws, working_hours_end = we,
      working_hours_display = wd\<rparr>"

definition doctors :: "doctor list" where
  "doctors =
    [mk_doctor ''Dr. Rajesh Kumar'' ''General Medicine'' ''+91-9876-543201'' ''rajesh.kumar@clinic.in'' 1
       [''Monday'', ''Tuesday'', ''Wednesday'', ''Thursday'', ''Friday'', ''Saturday'']
       ''09:00:00'' ''17:00:00'' ''9:00 AM - 5:00 PM'',
     mk_doctor ''Dr. Priya Sharma'' ''Cardiology'' ''+91-8765-432102'' ''priya.sharma@clinic.in'' 3
       [''Monday'', ''Tuesday'', ''Wednesday'', ''Thursday'', ''Friday'']
       ''10:00:00'' ''18:00:00'' ''10:00 AM - 6:00 PM'',
     mk_doctor ''Dr. Suresh Reddy'' ''Dermatology'' ''+91-7654-321903'' ''suresh.reddy@clinic.in'' 2
       [''Tuesday'', ''Thursday'', ''Friday'', ''Saturday'']
       ''11:00:00'' ''19:00:00'' ''11:00 AM - 7:00 PM'',
     mk_doctor ''Dr. Meera Patel'' ''Ophthalmology'' ''+91-9123-456704'' ''meera.patel@clinic.in'' 1
       [''Monday'', ''Wednesday'', ''Thursday'', ''Friday'', ''Saturday'']
       ''08:30:00'' ''16:30:00'' ''8:30 AM - 4:30 PM'',
     mk_doctor ''Dr. Vikram Singh'' ''Mental Health'' ''+91-8234-567105'' ''vikram.singh@clinic.in'' 4
       [''Monday'', ''Tuesday'', ''Wednesday'', ''Thursday'', ''Friday'']
       ''10:00:00'' ''18:00:00'' ''10:00 AM - 6:00 PM'',
     mk_doctor ''Dr. Anita Gupta'' ''Pediatrics'' ''+91-7345-678906'' ''anita.gupta@clinic.in'' 1
       [''Monday'', ''Tuesday'', ''Wednesday'', ''Friday'', ''Saturday'']
       ''09:00:00'' ''17:00:00'' ''9:00 AM - 5:00 PM'',
     mk_doctor ''Dr. Ravi Krishnan'' ''Gynecology'' ''+91-9456-789107'' ''ravi.krishnan@clinic.in'' 3
       [''Monday'', ''Wednesday'', ''Thursday'', ''Friday'']
       ''14:00:00'' ''20:00:00'' ''2:00 PM - 8:00 PM'',
     mk_doctor ''Dr. Sunita Rao'' ''Orthopedics'' ''+91-8567-891208'' ''sunita.rao@clinic.in'' 2
       [''Tuesday'', ''Wednesday'', ''Thursday'', ''Saturday'']
       ''09:30:00'' ''17:30:00'' ''9:30 AM - 5:30 PM'',
     mk_doctor ''Dr. Arun Kumar'' ''ENT'' ''+91-7678-912309'' ''arun.kumar@clinic.in'' 4
       [''Monday'', ''Tuesday'', ''Friday'', ''Saturday'']
       ''10:30:00'' ''18:30:00'' ''10:30 AM - 6:30 PM'',
     mk_doctor ''Dr. Kavitha Nair'' ''Endocrinology'' ''+91-9789-123410'' ''kavitha.nair@clinic.in'' 3
       [''Monday'', ''Wednesday'', ''Thursday'', ''Friday'']
       ''11:00:00'' ''19:00:00'' ''11:00 AM - 7:00 PM'']"

subsection \<open>Slot generation\<close>

definition day_mapping :: "string \<Rightarrow> nat option" where
  "day_mapping day_name =
     (if day_name = ''Monday'' then Some 1
      else if day_name = ''Tuesday'' then Some 2
      else if day_name = ''Wednesday'' then Some 3
      else if day_name = ''Thursday'' then Some 4
      else if day_name = ''Friday'' then Some 5
      else if day_name = ''Saturday'' then Some 6
      else if day_name = ''Sunday'' then Some 7
      else None)"

text \<open>
  \<open>map(int, s.split(':')[:2])\<close> unpacked into two names: fewer than two fields, or a field
  that is not a number, raises (\<open>None\<close>).
\<close>

definition parse_hm :: "string \<Rightarrow> hm option" where
  "parse_hm s =
     (case take 2 (split_char (CHR '':'') s) of
        [a, b] \<Rightarrow>
          (case int_of_str a of
             None \<Rightarrow> None
           | Some h \<Rightarrow> (case int_of_str b of None \<Rightarrow> None | Some m \<Rightarrow> Some (h, m)))
      | _ \<Rightarrow> None)"

text \<open>The end of the slot that starts at the current hour and minute: 30 minutes later.\<close>

definition end_slot :: "hm \<Rightarrow> hm" where
  "end_slot cur =
     (let end_slot_min = snd cur + 30; end_slot_hour = fst cur
      in if end_slot_min \<ge> 60 then (end_slot_hour + 1, end_slot_min - 60)
         else (end_slot_hour, end_slot_min))"

text \<open>
  Moving to the next slot: the minute is set to 0 on an hour change (not reduced by 60, as
  \<open>end_slot\<close> does).
\<close>

definition next_slot :: "hm \<Rightarrow> hm" where
  "next_slot cur =
     (let current_min = snd cur + 30
      in if current_min \<ge> 60 then (fst cur + 1, 0) else (fst cur, current_min))"

definition before :: "hm \<Rightarrow> hm \<Rightarrow> bool" where
  "before a b = (fst a < fst b \<or> (fst a = fst b \<and> snd a < snd b))"

text \<open>The \<open>while\<close> loop that creates the 30-minute slots of one doctor on one day.\<close>

function slot_loop :: "nat \<Rightarrow> nat \<Rightarrow> hm \<Rightarrow> hm \<Rightarrow> time_slot list" where
  "slot_loop doctor_id day_num end_t cur =
     (if before cur end_t then
        (if before end_t (end_slot cur) then []
         else \<lparr>slot_doctor_id = doctor_id, day_of_week = day_num, start_time = cur,
               end_time = end_slot cur, is_available = True, slot_type = ''regular''\<rparr>
              # slot_loop doctor_id day_num end_t (next_slot cur))
      else [])"
  by pat_completeness auto
termination
  by (relation "measures [\<lambda>(d, n, e, c). Suc (fst e) - fst c, \<lambda>(d, n, e, c). 60 - snd c]")
     (auto simp: before_def end_slot_def next_slot_def Let_def split: if_splits)

declare slot_loop.simps [simp del]

text \<open>
  The body of \<open>for day_name in available_days\<close> for one doctor and one day; \<open>None\<close> when the
  day name is not in \<open>day_mapping\<close> or the working hours do not parse.
\<close>

definition day_slots :: "nat \<Rightarrow> doctor \<Rightarrow> string \<Rightarrow> time_slot list option" where
  "day_slots doctor_id d day_name =
     (case day_mapping day_name of
        None \<Rightarrow> None
      | Some day_num \<Rightarrow>
          (case parse_hm (working_hours_start d) of
             None \<Rightarrow> None
           | Some start_t \<Rightarrow>
               (case parse_hm (working_hours_end d) of
                  None \<Rightarrow> None
                | Some end_t \<Rightarrow> Some (slot_loop doctor_id day_num end_t start_t))))"

text \<open>What the predicates of the slot grid mean.\<close>

definition half_hour :: "time_slot \<Rightarrow> bool" where
  "half_hour r = (mins (end_time r) = mins (start_time r) + 30)"

fun contiguous :: "time_slot list \<Rightarrow> bool" where
  "contiguous (a # b # rs) = (end_time a = start_time b \<and> contiguous (b # rs))"
| "contiguous _ = True"

definition disjoint_slots :: "time_slot \<Rightarrow> time_slot \<Rightarrow> bool" where
  "disjoint_slots a b =
     (mins (end_time a) \<le> mins (start_time b) \<or> mins (end_time b) \<le> mins (start_time a))"

fun non_overlapping :: "time_slot list \<Rightarrow> bool" where
  "non_overlapping [] = True"
| "non_overlapping (a # rs) = ((\<forall>b \<in> set rs. disjoint_slots a b) \<and> non_overlapping rs)"

definition within_hours :: "hm \<Rightarrow> hm \<Rightarrow> time_slot \<Rightarrow> bool" where
  "within_hours start_t end_t r =
     (mins start_t \<le> mins (start_time r) \<and> mins (end_time r) \<le> mins end_t)"

definition slot_grid_ok :: "hm \<Rightarrow> hm \<Rightarrow> time_slot list \<Rightarrow> bool" where
  "slot_grid_ok start_t end_t rs =
     ((\<forall>r \<in> set rs. half_hour r) \<and> contiguous rs \<and> non_overlapping rs \<and>
      (\<forall>r \<in> set rs. within_hours start_t end_t r))"

text \<open>
  The two nested \<open>for\<close> loops: doctor ids 1 to 10 in order, and for each the doctor's
  available days in order.
\<close>

definition doctor_slots :: "nat \<Rightarrow> doctor \<Rightarrow> time_slot list option" where
  "doctor_slots doctor_id d =
     map_option concat (those (map (day_slots doctor_id d) (available_days d)))"

definition time_slots :: "time_slot list option" where
  "time_slots =
     map_option concat
       (those (map (\<lambda>doctor_id. doctor_slots doctor_id (doctors ! (doctor_id - 1))) [1..<11]))"

section \<open>The two stores at run time\<close>

record clinic =
  c_name :: string
  c_address :: string
  c_phone :: string
  c_operating_hours :: string

text \<open>The price is kept in hundredths of the currency unit (the column is \<open>DECIMAL(10,2)\<close>).\<close>

record service =
  s_name :: string
  s_description :: string
  s_duration_minutes :: int
  s_price :: int
  s_department :: string
  s_clinic_id :: nat

text \<open>
  Each table is keyed by its \<open>INTEGER PRIMARY KEY\<close>. The catalog columns read by the booking
  tools are taken to hold values of their declared type. Columns that no tool reads (the
  clinic's city, state, pincode and email, and the \<open>created_at\<close> stamps) are left out.
\<close>

record catalog =
  doctors_table :: "nat \<rightharpoonup> doctor"
  clinics_table :: "nat \<rightharpoonup> clinic"
  services_table :: "nat \<rightharpoonup> service"
  time_slots_table :: "nat \<rightharpoonup> time_slot"

subsection \<open>The table \<open>enhanced_appointments\<close>, grouped as its schema is\<close>

text \<open>
  The columns are those the \<open>INSERT\<close> of the booking tool names. The columns that no tool writes
  (\<open>patient_id\<close>, \<open>follow_up_required\<close>) and the time stamps \<open>created_at\<close>, \<open>updated_at\<close> and
  \<open>changed_at\<close>, which the database fills in, are left out.
\<close>

record patient_columns =
  patient_name :: string
  patient_phone :: string
  patient_email :: string
  patient_age :: "int option"
  patient_gender :: string
  patient_address :: string
  patient_medical_history :: string
  patient_emergency_contact :: string

record doctor_columns =
  doctor_id :: nat
  doctor_name :: string
  doctor_specialty :: string
  doctor_phone :: string
  doctor_qualifications :: string

record clinic_columns =
  clinic_id :: nat
  clinic_name :: string
  clinic_address :: string
  clinic_phone :: string
  clinic_operating_hours :: string

record service_columns =
  service_id :: nat
  service_name :: string
  service_description :: string
  service_department :: string
  service_price :: int
  service_duration_minutes :: int

record complaint_columns =
  patient_complaint :: string
  symptoms_description :: string
  symptoms_duration :: string
  pain_level :: "int option"
  urgency_level :: string

record ai_columns =
  ai_patient_summary :: string
  ai_recommended_focus_areas :: string
  ai_preliminary_assessment :: string
  ai_suggested_questions :: string

record enhanced_appointment =
  appointment_number :: string
  patient_info :: patient_columns
  doctor_info :: doctor_columns
  clinic_info :: clinic_columns
  service_info :: service_columns
  appointment_date :: string
  appointment_time :: hm
  appointment_end_time :: hm
  slot_id :: nat
  complaint_info :: complaint_columns
  ai_info :: ai_columns
  status :: string
  booking_source :: string
  special_instructions :: string
  conversation_summary :: string
  patient_mood_assessment :: string
  booking_interaction_quality :: string

record status_history =
  h_appointment_id :: "nat option"
  old_status :: "string option"
  new_status :: string
  changed_by :: string
  reason :: string

text \<open>The table \<open>appointments\<close> of \<open>db_setup.py\<close>, written by the older booking tool.\<close>

record appointment =
  a_patient_id :: "nat option"
  a_doctor_id :: "nat option"
  a_service_id :: "nat option"
  a_clinic_id :: nat
  a_appointment_date :: string
  a_appointment_time :: hm
  a_duration_minutes :: int
  a_patient_complaint :: string
  a_symptoms_description :: string
  a_urgency_level :: string
  a_status :: string

text \<open>
  Rows are never deleted and ids are \<open>AUTOINCREMENT\<close>, so a table of the ledger is the list
  of its rows in insertion order and the row at position \<open>i\<close> has id \<open>i + 1\<close>.
\<close>

record ledger =
  enhanced_appointments :: "enhanced_appointment list"
  appointment_status_history :: "status_history list"
  appointments :: "appointment list"

record state =
  services_conn :: catalog
  appointments_conn :: ledger

subsection \<open>Requests, results and errors\<close>

record patient_data =
  pd_name :: "string option"
  pd_phone :: "string option"
  pd_email :: "string option"
  pd_age :: "int option"
  pd_gender :: "string option"
  pd_address :: "string option"
  pd_medical_history :: "string option"
  pd_emergency_contact :: "string option"

text \<open>The parsed \<open>booking_data\<close>: a key that is absent is \<open>None\<close>.\<close>

record booking_data =
  bd_patient_data :: patient_data
  bd_patient_id :: "nat option"
  bd_doctor_id :: "nat option"
  bd_service_id :: "nat option"
  bd_time_slot_id :: "nat option"
  bd_appointment_date :: "string option"
  bd_complaint :: "string option"
  bd_symptoms :: "string option"
  bd_symptoms_duration :: "string option"
  bd_pain_level :: "int option"
  bd_urgency :: "string option"
  bd_special_instructions :: "string option"

datatype exn = ValueError

datatype error =
    Doctor_not_found
  | Service_not_found
  | Time_slot_not_available
  | Appointment_not_found
  | Caught exn

text \<open>
  The \<open>error\<close> text of a result with \<open>success = False\<close>; for a caught exception it is the text
  of the exception, here without the offending value.
\<close>

fun error_text :: "error \<Rightarrow> string" where
  "error_text Doctor_not_found = ''Doctor not found''"
| "error_text Service_not_found = ''Service not found''"
| "error_text Time_slot_not_available = ''Time slot not available''"
| "error_text Appointment_not_found = ''Appointment not found''"
| "error_text (Caught ValueError) = ''time data does not match format '' @ [CHR 0x27] @ ''%H:%M:%S'' @ [CHR 0x27]"

record appointment_details =
  r_appointment_number :: string
  r_appointment_id :: "nat option"
  r_patient_name :: string
  r_doctor_name :: string
  r_doctor_specialty :: string
  r_service_name :: string
  r_clinic_name :: string
  r_clinic_address :: string
  r_clinic_phone :: string
  r_appointment_date :: string
  r_appointment_time :: hm
  r_appointment_end_time :: hm
  r_duration_minutes :: int
  r_service_price :: int
  r_urgency_level :: string
  r_status :: string
  r_patient_summary :: string
  r_focus_areas :: string
  r_preliminary_assessment :: string

record simple_details =
  sr_doctor :: string
  sr_service :: "string option"
  sr_clinic :: string
  sr_date :: string
  sr_time :: hm
  sr_duration :: string

record status_update =
  u_appointment_id :: nat
  u_old_status :: string
  u_new_status :: string

subsection \<open>The clock\<close>

record datetime =
  dt_year :: nat
  dt_month :: nat
  dt_day :: nat
  dt_hour :: nat
  dt_minute :: nat
  dt_second :: nat

text \<open>\<open>strftime('%Y%m%d%H%M%S')\<close> and \<open>strftime('%Y-%m-%d')\<close>.\<close>

definition strftime_compact :: "datetime \<Rightarrow> string" where
  "strftime_compact t =
     zero_pad 4 (dt_year t) @ zero_pad 2 (dt_month t) @ zero_pad 2 (dt_day t) @
     zero_pad 2 (dt_hour t) @ zero_pad 2 (dt_minute t) @ zero_pad 2 (dt_second t)"

definition strftime_date :: "datetime \<Rightarrow> string" where
  "strftime_date t =
     zero_pad 4 (dt_year t) @ ''-'' @ zero_pad 2 (dt_month t) @ ''-'' @ zero_pad 2 (dt_day t)"

definition generate_appointment_number :: "datetime \<Rightarrow> string" where
  "generate_appointment_number now = ''APT-'' @ strftime_compact now"

section \<open>The summary generator (\<open>GeminiAIManager.generate_patient_summary\<close>)\<close>

text \<open>
  The hosted model is outside the program: what it answers on one call is an input of the model.
  \<open>Generation_failed\<close> is any exception raised inside the \<open>try\<close> block; \<open>Generated\<close> carries the
  text of the first answer and the three fields the source scans out of the second answer.
\<close>

datatype ai_outcome =
    Generation_failed
  | Generated string string string string

text \<open>The keys of \<open>comprehensive_patient_data\<close> that the \<open>except\<close> branch reads.\<close>

record summary_input =
  si_name :: "string option"
  si_service_name :: "string option"
  si_complaint :: "string option"

definition fallback_summary :: "summary_input \<Rightarrow> string" where
  "fallback_summary pd =
     ''Patient '' @ get_or ''Unknown'' (si_name pd) @
     '' scheduled for '' @ get_or ''consultation'' (si_service_name pd) @
     ''. Complaint: '' @ get_or ''General consultation'' (si_complaint pd) @
     ''. Please conduct thorough examination as per standard protocol.''"

definition generate_patient_summary :: "ai_outcome \<Rightarrow> summary_input \<Rightarrow> ai_columns" where
  "generate_patient_summary ai pd =
     (case ai of
        Generated response_text focus_areas preliminary_assessment suggested_questions \<Rightarrow>
          \<lparr>ai_patient_summary = take 1000 response_text,
           ai_recommended_focus_areas = focus_areas,
           ai_preliminary_assessment = preliminary_assessment,
           ai_suggested_questions = suggested_questions\<rparr>
      | Generation_failed \<Rightarrow>
          \<lparr>ai_patient_summary = fallback_summary pd,
           ai_recommended_focus_areas = ''General examination, symptom assessment'',
           ai_preliminary_assessment = ''Standard consultation required based on patient request.'',
           ai_suggested_questions =
             ''1. Please describe your symptoms in detail. 2. When did this start? 3. Any previous medical history? 4. Current medications?''\<rparr>)"

section \<open>Queries of the booking tools\<close>

text \<open>
  \<open>SELECT d.*, c.name ... FROM doctors d JOIN clinics c ON d.clinic_id = c.id WHERE d.id = ?\<close>:
  no row when the id is null, the doctor is missing or the doctor's clinic is missing.
\<close>

definition select_doctor :: "catalog \<Rightarrow> nat option \<Rightarrow> (doctor \<times> clinic) option" where
  "select_doctor c doc_id =
     (case doc_id of
        None \<Rightarrow> None
      | Some i \<Rightarrow>
          (case doctors_table c i of
             None \<Rightarrow> None
           | Some d \<Rightarrow>
               (case clinics_table c (d_clinic_id d) of
                  None \<Rightarrow> None
                | Some cl \<Rightarrow> Some (d, cl))))"

text \<open>\<open>SELECT * FROM services WHERE id = ?\<close>\<close>

definition select_service :: "catalog \<Rightarrow> nat option \<Rightarrow> service option" where
  "select_service c svc_id =
     (case svc_id of None \<Rightarrow> None | Some i \<Rightarrow> services_table c i)"

text \<open>\<open>SELECT * FROM time_slots WHERE id = ? AND doctor_id = ? AND is_available = 1\<close>\<close>

definition slot_check :: "catalog \<Rightarrow> nat option \<Rightarrow> nat option \<Rightarrow> time_slot option" where
  "slot_check c ts_id doc_id =
     (case ts_id of
        None \<Rightarrow> None
      | Some t \<Rightarrow>
          (case doc_id of
             None \<Rightarrow> None
           | Some d \<Rightarrow>
               (case time_slots_table c t of
                  None \<Rightarrow> None
                | Some sl \<Rightarrow>
                    if slot_doctor_id sl = d \<and> is_available sl then Some sl else None)))"

text \<open>\<open>UPDATE time_slots SET is_available = 0 WHERE id = ?\<close>\<close>

definition mark_unavailable :: "catalog \<Rightarrow> nat \<Rightarrow> catalog" where
  "mark_unavailable c t =
     (case time_slots_table c t of
        None \<Rightarrow> c
      | Some sl \<Rightarrow> c\<lparr>time_slots_table := (time_slots_table c)(t \<mapsto> sl\<lparr>is_available := False\<rparr>)\<rparr>)"

text \<open>
  The \<open>INSERT INTO enhanced_appointments\<close> through \<open>execute_dynamic_query\<close>: the new row id,
  or \<open>None\<close> when the statement raises, which the schema makes it do on a repeated
  \<open>appointment_number\<close> (\<open>UNIQUE\<close>) and on a \<open>pain_level\<close> outside 0 to 10 (\<open>CHECK\<close>).
\<close>

definition pain_level_ok :: "int option \<Rightarrow> bool" where
  "pain_level_ok p = (case p of None \<Rightarrow> True | Some v \<Rightarrow> 0 \<le> v \<and> v \<le> 10)"

definition insert_accepted :: "ledger \<Rightarrow> enhanced_appointment \<Rightarrow> bool" where
  "insert_accepted l r =
     (appointment_number r \<notin> set (map appointment_number (enhanced_appointments l)) \<and>
      pain_level_ok (pain_level (complaint_info r)))"

definition insert_enhanced_appointment ::
  "ledger \<Rightarrow> enhanced_appointment \<Rightarrow> nat option \<times> ledger" where
  "insert_enhanced_appointment l r =
     (if insert_accepted l r
      then (Some (Suc (length (enhanced_appointments l))),
            l\<lparr>enhanced_appointments := enhanced_appointments l @ [r]\<rparr>)
      else (None, l))"

text \<open>\<open>INSERT INTO appointment_status_history\<close>\<close>

definition insert_status_history :: "ledger \<Rightarrow> status_history \<Rightarrow> ledger" where
  "insert_status_history l h =
     l\<lparr>appointment_status_history := appointment_status_history l @ [h]\<rparr>"

text \<open>\<open>SELECT ... FROM enhanced_appointments WHERE id = ?\<close>\<close>

definition select_appointment :: "ledger \<Rightarrow> nat \<Rightarrow> enhanced_appointment option" where
  "select_appointment l appointment_id =
     (if 0 < appointment_id \<and> appointment_id \<le> length (enhanced_appointments l)
      then Some (enhanced_appointments l ! (appointment_id - 1))
      else None)"

section \<open>\<open>book_appointment_comprehensive\<close>\<close>

text \<open>\<open>datetime.strptime(s, '%H:%M:%S')\<close> raises \<open>ValueError\<close> outside these ranges.\<close>

definition valid_hm :: "hm \<Rightarrow> bool" where
  "valid_hm t = (fst t < 24 \<and> snd t < 60)"

text \<open>
  \<open>(datetime.combine(today, start_time) + timedelta(minutes=duration)).time()\<close>: the date is
  dropped, so the result wraps at midnight.
\<close>

definition add_minutes :: "hm \<Rightarrow> int \<Rightarrow> hm" where
  "add_minutes t duration =
     (let total = (int (mins t) + duration) mod 1440
      in (nat (total div 60), nat (total mod 60)))"

definition truncate_summary :: "string \<Rightarrow> string" where
  "truncate_summary t = (if length t > 200 then take 200 t @ ''...'' else t)"

text \<open>
  The row of the \<open>INSERT\<close>, built from the request, the doctor (joined with the clinic), the
  service and the slot that the three queries returned. The ids are those of the request, which
  are present once the queries have returned a row.
\<close>

definition appointment_row ::
  "datetime \<Rightarrow> string list \<Rightarrow> ai_outcome \<Rightarrow> booking_data \<Rightarrow> doctor \<Rightarrow> clinic \<Rightarrow>
   service \<Rightarrow> time_slot \<Rightarrow> enhanced_appointment" where
  "appointment_row now conversation_history ai b d cl sv sl =
     (let patient = bd_patient_data b;
          ai_summary_data =
            generate_patient_summary ai
              \<lparr>si_name = pd_name patient,
               si_service_name = Some (s_name sv),
               si_complaint = Some (get_or [] (bd_complaint b))\<rparr>;
          patient_mood = (if length conversation_history > 4 then ''cooperative'' else ''brief'');
          interaction_quality = (if length conversation_history > 10 then ''excellent'' else ''good'')
      in
      \<lparr>appointment_number = generate_appointment_number now,
       patient_info =
         \<lparr>patient_name = get_or [] (pd_name patient),
          patient_phone = get_or [] (pd_phone patient),
          patient_email = get_or [] (pd_email patient),
          patient_age = pd_age patient,
          patient_gender = get_or [] (pd_gender patient),
          patient_address = get_or [] (pd_address patient),
          patient_medical_history = get_or [] (pd_medical_history patient),
          patient_emergency_contact = get_or [] (pd_emergency_contact patient)\<rparr>,
       doctor_info =
         \<lparr>doctor_id = the (bd_doctor_id b), doctor_name = d_name d, doctor_specialty = d_specialty d,
          doctor_phone = d_phone d, doctor_qualifications = []\<rparr>,
       clinic_info =
         \<lparr>clinic_id = d_clinic_id d, clinic_name = c_name cl, clinic_address = c_address cl,
          clinic_phone = c_phone cl, clinic_operating_hours = c_operating_hours cl\<rparr>,
       service_info =
         \<lparr>service_id = the (bd_service_id b), service_name = s_name sv, service_description = s_description sv,
          service_department = s_department sv, service_price = s_price sv,
          service_duration_minutes = s_duration_minutes sv\<rparr>,
       appointment_date = get_or (strftime_date now) (bd_appointment_date b),
       appointment_time = start_time sl,
       appointment_end_time = add_minutes (start_time sl) (s_duration_minutes sv),
       slot_id = the (bd_time_slot_id b),
       complaint_info =
         \<lparr>patient_complaint = get_or [] (bd_complaint b),
          symptoms_description = get_or [] (bd_symptoms b),
          symptoms_duration = get_or [] (bd_symptoms_duration b),
          pain_level = bd_pain_level b,
          urgency_level = get_or ''normal'' (bd_urgency b)\<rparr>,
       ai_info = ai_summary_data,
       status = ''scheduled'',
       booking_source = ''ai_assistant'',
       special_instructions = get_or [] (bd_special_instructions b),
       conversation_summary =
         ''Conversation with '' @ show_nat (length conversation_history) @
         '' exchanges, patient was '' @ patient_mood,
       patient_mood_assessment = patient_mood,
       booking_interaction_quality = interaction_quality\<rparr>)"

definition details_of :: "enhanced_appointment \<Rightarrow> nat option \<Rightarrow> appointment_details" where
  "details_of r appointment_id =
     \<lparr>r_appointment_number = appointment_number r,
      r_appointment_id = appointment_id,
      r_patient_name = patient_name (patient_info r),
      r_doctor_name = doctor_name (doctor_info r),
      r_doctor_specialty = doctor_specialty (doctor_info r),
      r_service_name = service_name (service_info r),
      r_clinic_name = clinic_name (clinic_info r),
      r_clinic_address = clinic_address (clinic_info r),
      r_clinic_phone = clinic_phone (clinic_info r),
      r_appointment_date = appointment_date r,
      r_appointment_time = appointment_time r,
      r_appointment_end_time = appointment_end_time r,
      r_duration_minutes = service_duration_minutes (service_info r),
      r_service_price = service_price (service_info r),
      r_urgency_level = urgency_level (complaint_info r),
      r_status = ''scheduled'',
      r_patient_summary = truncate_summary (ai_patient_summary (ai_info r)),
      r_focus_areas = ai_recommended_focus_areas (ai_info r),
      r_preliminary_assessment = ai_preliminary_assessment (ai_info r)\<rparr>"

text \<open>
  The tool, in the order of its statements. Its inputs beside the stores are the clock, the
  conversation history of the session and the answer of the summary generator. The result of
  the \<open>INSERT\<close> is not inspected: the slot is marked and the history row written whether or not
  the appointment row was stored. The update of \<open>enhanced_interaction_logs\<close>, the constant
  field \<open>ai_summary_generated\<close> and the text of the \<open>message\<close> field are left out. The duration
  of a service is taken to be in the range where adding it to today's date does not overflow.
\<close>

definition book_appointment_comprehensive ::
  "state \<Rightarrow> datetime \<Rightarrow> string list \<Rightarrow> ai_outcome \<Rightarrow> booking_data \<Rightarrow>
   (error + appointment_details) \<times> state" where
  "book_appointment_comprehensive s now conversation_history ai b =
     (case select_doctor (services_conn s) (bd_doctor_id b) of
        None \<Rightarrow> (Inl Doctor_not_found, s)
      | Some (d, cl) \<Rightarrow>
     (case select_service (services_conn s) (bd_service_id b) of
        None \<Rightarrow> (Inl Service_not_found, s)
      | Some sv \<Rightarrow>
     (case slot_check (services_conn s) (bd_time_slot_id b) (bd_doctor_id b) of
        None \<Rightarrow> (Inl Time_slot_not_available, s)
      | Some sl \<Rightarrow>
          if \<not> valid_hm (start_time sl) then (Inl (Caught ValueError), s)
          else
            let row = appointment_row now conversation_history ai b d cl sv sl;
                (appointment_id, l1) = insert_enhanced_appointment (appointments_conn s) row;
                c1 = mark_unavailable (services_conn s) (the (bd_time_slot_id b));
                l2 = insert_status_history l1
                       \<lparr>h_appointment_id = appointment_id, old_status = None,
                        new_status = ''scheduled'', changed_by = ''ai_assistant'',
                        reason = ''Initial booking''\<rparr>
            in (Inr (details_of row appointment_id),
                \<lparr>services_conn = c1, appointments_conn = l2\<rparr>))))"

section \<open>\<open>update_appointment_status\<close>\<close>

definition update_appointment_status ::
  "state \<Rightarrow> nat \<Rightarrow> string \<Rightarrow> string \<Rightarrow> string \<Rightarrow> (error + status_update) \<times> state" where
  "update_appointment_status s appointment_id new_st reason_text who =
     (let l = appointments_conn s in
      case select_appointment l appointment_id of
        None \<Rightarrow> (Inl Appointment_not_found, s)
      | Some current \<Rightarrow>
          let old_st = status current;
              l1 = l\<lparr>enhanced_appointments :=
                       (enhanced_appointments l)[appointment_id - 1 := current\<lparr>status := new_st\<rparr>]\<rparr>;
              l2 = insert_status_history l1
                     \<lparr>h_appointment_id = Some appointment_id, old_status = Some old_st,
                      new_status = new_st, changed_by = who, reason = reason_text\<rparr>
          in (Inr \<lparr>u_appointment_id = appointment_id, u_old_status = old_st, u_new_status = new_st\<rparr>,
              s\<lparr>appointments_conn := l2\<rparr>))"

section \<open>\<open>book_appointment_intelligent\<close> (mcp\_chat\_appointment.py)\<close>

text \<open>
  Its slot query joins the slot with its own doctor and that doctor's clinic, and filters on the
  slot id and the availability flag only:
  \<open>FROM time_slots ts JOIN doctors d ON ts.doctor_id = d.id LEFT JOIN services s ON ? = s.id
  JOIN clinics c ON d.clinic_id = c.id WHERE ts.id = ? AND ts.is_available = 1\<close>.
\<close>

definition slot_check_joined ::
  "catalog \<Rightarrow> nat option \<Rightarrow> nat option \<Rightarrow> (time_slot \<times> string \<times> string option \<times> string) option" where
  "slot_check_joined c svc_id ts_id =
     (case ts_id of
        None \<Rightarrow> None
      | Some t \<Rightarrow>
          (case time_slots_table c t of
             None \<Rightarrow> None
           | Some sl \<Rightarrow>
               (case select_doctor c (Some (slot_doctor_id sl)) of
                  None \<Rightarrow> None
                | Some (d, cl) \<Rightarrow>
                    if is_available sl
                    then Some (sl, d_name d, map_option s_name (select_service c svc_id), c_name cl)
                    else None)))"

definition book_appointment_intelligent ::
  "state \<Rightarrow> datetime \<Rightarrow> booking_data \<Rightarrow> (error + simple_details) \<times> state" where
  "book_appointment_intelligent s now b =
     (let date = get_or (strftime_date now) (bd_appointment_date b) in
      case slot_check_joined (services_conn s) (bd_service_id b) (bd_time_slot_id b) of
        None \<Rightarrow> (Inl Time_slot_not_available, s)
      | Some (sl, dname, sname, cname) \<Rightarrow>
          let l = appointments_conn s;
              l1 = l\<lparr>appointments := appointments l @
                     [\<lparr>a_patient_id = bd_patient_id b, a_doctor_id = bd_doctor_id b,
                       a_service_id = bd_service_id b, a_clinic_id = 1,
                       a_appointment_date = date, a_appointment_time = start_time sl,
                       a_duration_minutes = 30,
                       a_patient_complaint = get_or [] (bd_complaint b),
                       a_symptoms_description = get_or [] (bd_symptoms b),
                       a_urgency_level = get_or ''normal'' (bd_urgency b),
                       a_status = ''scheduled''\<rparr>]\<rparr>;
              c1 = mark_unavailable (services_conn s) (the (bd_time_slot_id b))
          in (Inr \<lparr>sr_doctor = dname, sr_service = sname, sr_clinic = cname,
                   sr_date = date, sr_time = start_time sl,
                   sr_duration = ''30 minutes''\<rparr>,
              \<lparr>services_conn = c1, appointments_conn = l1\<rparr>))"

section \<open>Sequential runs\<close>

text \<open>
  A run is a list of tool calls, with the inputs each one receives, and of edits of the catalog
  made from outside the tools.
\<close>

datatype call =
    Book datetime "string list" ai_outcome booking_data
  | Book_intelligent datetime booking_data
  | Update_status nat string string string
  | Edit_catalog "catalog \<Rightarrow> catalog"

fun step :: "state \<Rightarrow> call \<Rightarrow> state" where
  "step s (Book now h ai b) = snd (book_appointment_comprehensive s now h ai b)"
| "step s (Book_intelligent now b) = snd (book_appointment_intelligent s now b)"
| "step s (Update_status a st r w) = snd (update_appointment_status s a st r w)"
| "step s (Edit_catalog f) = s\<lparr>services_conn := f (services_conn s)\<rparr>"

definition run :: "state \<Rightarrow> call list \<Rightarrow> state" where
  "run s calls = foldl step s calls"

section \<open>Auxiliary notions for the statements\<close>

text \<open>
  What the slot loop needs of a seeded doctor: working hours that parse, a start on the hour or
  the half hour, and day names known to \<open>day_mapping\<close>.
\<close>

definition seed_ok :: "doctor \<Rightarrow> bool" where
  "seed_ok d =
     (case parse_hm (working_hours_start d) of
        None \<Rightarrow> False
      | Some start_t \<Rightarrow>
          (snd start_t = 0 \<or> snd start_t = 30) \<and> parse_hm (working_hours_end d) \<noteq> None \<and>
          (\<forall>day_name \<in> set (available_days d). day_mapping day_name \<noteq> None))"

subsection \<open>A small catalog for concrete runs\<close>

text \<open>
  Two doctors of one clinic, one 45-minute service, and two free slots of the first doctor on
  day 2: 10:00 to 10:30 and 10:30 to 11:00.
\<close>

definition ex_doctor1 :: doctor where
  "ex_doctor1 = mk_doctor ''Dr. Rajesh Kumar'' ''General Medicine'' ''+91-9876-543201''
     ''rajesh.kumar@clinic.in'' 1 [''Tuesday''] ''09:00:00'' ''17:00:00'' ''9:00 AM - 5:00 PM''"

definition ex_doctor2 :: doctor where
  "ex_doctor2 = mk_doctor ''Dr. Priya Sharma'' ''Cardiology'' ''+91-8765-432102''
     ''priya.sharma@clinic.in'' 1 [''Monday''] ''10:00:00'' ''18:00:00'' ''10:00 AM - 6:00 PM''"

definition ex_clinic :: clinic where
  "ex_clinic = \<lparr>c_name = ''HealthCare Plus Clinic'', c_address = ''Main Road, Beside SBI Bank'',
     c_phone = ''+91-8765-432109'', c_operating_hours = ''9:00 AM - 8:00 PM''\<rparr>"

definition ex_service :: service where
  "ex_service = \<lparr>s_name = ''General Checkup'',
     s_description = ''Complete health examination and consultation'', s_duration_minutes = 45,
     s_price = 15000, s_department = ''General Medicine'', s_clinic_id = 1\<rparr>"

definition ex_slot1 :: time_slot where
  "ex_slot1 = \<lparr>slot_doctor_id = 1, day_of_week = 2, start_time = (10, 0), end_time = (10, 30),
     is_available = True, slot_type = ''regular''\<rparr>"

definition ex_slot2 :: time_slot where
  "ex_slot2 = \<lparr>slot_doctor_id = 1, day_of_week = 2, start_time = (10, 30), end_time = (11, 0),
     is_available = True, slot_type = ''regular''\<rparr>"

definition ex_catalog :: catalog where
  "ex_catalog = \<lparr>doctors_table = [1 \<mapsto> ex_doctor1, 2 \<mapsto> ex_doctor2],
     clinics_table = [1 \<mapsto> ex_clinic], services_table = [1 \<mapsto> ex_service],
     time_slots_table = [1 \<mapsto> ex_slot1, 2 \<mapsto> ex_slot2]\<rparr>"

definition ex_ledger :: ledger where
  "ex_ledger = \<lparr>enhanced_appointments = [], appointment_status_history = [], appointments = []\<rparr>"

definition ex_state :: state where
  "ex_state = \<lparr>services_conn = ex_catalog, appointments_conn = ex_ledger\<rparr>"

definition ex_patient :: patient_data where
  "ex_patient = \<lparr>pd_name = Some ''Asha'', pd_phone = Some ''+91-9000-000001'', pd_email = None,
     pd_age = Some 34, pd_gender = None, pd_address = None, pd_medical_history = None,
     pd_emergency_contact = None\<rparr>"

text \<open>A request for slot 1 with doctor 1; 2024-01-07 is a Sunday, the slot is on day 2.\<close>

definition ex_booking :: booking_data where
  "ex_booking = \<lparr>bd_patient_data = ex_patient, bd_patient_id = None, bd_doctor_id = Some 1,
     bd_service_id = Some 1, bd_time_slot_id = Some 1, bd_appointment_date = Some ''2024-01-07'',
     bd_complaint = Some ''cough'', bd_symptoms = None, bd_symptoms_duration = None,
     bd_pain_level = None, bd_urgency = None, bd_special_instructions = None\<rparr>"

definition ex_now :: datetime where
  "ex_now = \<lparr>dt_year = 2024, dt_month = 1, dt_day = 1, dt_hour = 10, dt_minute = 0, dt_second = 0\<rparr>"



subsection \<open>The audit trail of one appointment\<close>


text \<open>History rows refer to stored appointments only (or to none).\<close>

definition ledger_wf :: "state \<Rightarrow> bool" where
  "ledger_wf s =
     (\<forall>h \<in> set (appointment_status_history (appointments_conn s)).
        case h_appointment_id h of
          None \<Rightarrow> True
        | Some a \<Rightarrow> 0 < a \<and> a \<le> length (enhanced_appointments (appointments_conn s)))"


text \<open>The calls of a run that are made through one of the tools.\<close>

fun is_tool_call :: "call \<Rightarrow> bool" where
  "is_tool_call (Edit_catalog f) = False"
| "is_tool_call _ = True"

section \<open>The seeded slot grid\<close>

lemma next_slot_min: "snd cur = 0 \<or> snd cur = 30 \<Longrightarrow> snd (next_slot cur) = 0 \<or> snd (next_slot cur) = 30"
  by (auto simp: next_slot_def Let_def)

lemma end_is_next: "snd cur = 0 \<or> snd cur = 30 \<Longrightarrow> end_slot cur = next_slot cur"
  by (auto simp: next_slot_def end_slot_def Let_def)

lemma mins_end_slot: "mins (end_slot cur) = mins cur + 30"
  by (auto simp: end_slot_def mins_def Let_def)

lemma not_before_mins: "\<not> before e t \<Longrightarrow> snd t < 60 \<Longrightarrow> mins t \<le> mins e"
  by (cases e; cases t) (auto simp: before_def mins_def not_less)

lemma slot_loop_rows:
  "snd cur = 0 \<or> snd cur = 30 \<Longrightarrow> r \<in> set (slot_loop d n e cur) \<Longrightarrow>
     mins cur \<le> mins (start_time r) \<and> half_hour r \<and> mins (end_time r) \<le> mins e"
proof (induction d n e cur rule: slot_loop.induct)
  case (1 d n e cur)
  show ?case
  proof (cases "before cur e \<and> \<not> before e (end_slot cur)")
    case False
    with "1.prems" show ?thesis by (auto simp: slot_loop.simps [of d n e cur])
  next
    case True
    from "1.prems"(2) True have
      "r = \<lparr>slot_doctor_id = d, day_of_week = n, start_time = cur,
               end_time = end_slot cur, is_available = True, slot_type = ''regular''\<rparr>
       \<or> r \<in> set (slot_loop d n e (next_slot cur))"
      by (auto simp: slot_loop.simps [of d n e cur])
    then show ?thesis
    proof
      assume r: "r = \<lparr>slot_doctor_id = d, day_of_week = n, start_time = cur,
               end_time = end_slot cur, is_available = True, slot_type = ''regular''\<rparr>"
      have "snd (end_slot cur) < 60" using "1.prems"(1) by (auto simp: end_slot_def Let_def)
      with True have "mins (end_slot cur) \<le> mins e" by (simp add: not_before_mins)
      with r show ?thesis by (simp add: half_hour_def mins_end_slot)
    next
      assume "r \<in> set (slot_loop d n e (next_slot cur))"
      with "1.IH" True "1.prems"(1) next_slot_min [of cur]
      have "mins (next_slot cur) \<le> mins (start_time r) \<and> half_hour r \<and> mins (end_time r) \<le> mins e"
        by blast
      moreover have "mins (next_slot cur) = mins cur + 30"
        using end_is_next [OF "1.prems"(1)] mins_end_slot [of cur] by simp
      ultimately show ?thesis by simp
    qed
  qed
qed

lemma slot_loop_contiguous:
  "snd cur = 0 \<or> snd cur = 30 \<Longrightarrow> contiguous (slot_loop d n e cur)"
proof (induction d n e cur rule: slot_loop.induct)
  case (1 d n e cur)
  show ?case
  proof (cases "before cur e \<and> \<not> before e (end_slot cur)")
    case False
    then show ?thesis by (auto simp: slot_loop.simps [of d n e cur])
  next
    case True
    have ih: "contiguous (slot_loop d n e (next_slot cur))"
      using "1.IH" True "1.prems" next_slot_min [of cur] by blast
    show ?thesis
    proof (cases "slot_loop d n e (next_slot cur)")
      case Nil
      with True show ?thesis by (simp add: slot_loop.simps [of d n e cur])
    next
      case (Cons b rs)
      have "start_time b = next_slot cur"
        using Cons by (auto simp: slot_loop.simps [of d n e "next_slot cur"] split: if_splits)
      with True Cons ih end_is_next [OF "1.prems"] show ?thesis
        by (simp add: slot_loop.simps [of d n e cur])
    qed
  qed
qed

lemma slot_loop_non_overlapping:
  "snd cur = 0 \<or> snd cur = 30 \<Longrightarrow> non_overlapping (slot_loop d n e cur)"
proof (induction d n e cur rule: slot_loop.induct)
  case (1 d n e cur)
  show ?case
  proof (cases "before cur e \<and> \<not> before e (end_slot cur)")
    case False
    then show ?thesis by (auto simp: slot_loop.simps [of d n e cur])
  next
    case True
    have m: "snd (next_slot cur) = 0 \<or> snd (next_slot cur) = 30"
      using "1.prems" by (rule next_slot_min)
    have ih: "non_overlapping (slot_loop d n e (next_slot cur))"
      using "1.IH" True m by blast
    have later: "\<forall>b \<in> set (slot_loop d n e (next_slot cur)). mins (end_slot cur) \<le> mins (start_time b)"
      using slot_loop_rows [OF m] end_is_next [OF "1.prems"] by simp
    with True ih show ?thesis
      by (simp add: slot_loop.simps [of d n e cur] disjoint_slots_def)
  qed
qed

lemma slot_loop_grid:
  assumes "snd start_t = 0 \<or> snd start_t = 30"
  shows "slot_grid_ok start_t end_t (slot_loop d n end_t start_t)"
  unfolding slot_grid_ok_def within_hours_def
  using slot_loop_rows [OF assms] slot_loop_contiguous [OF assms] slot_loop_non_overlapping [OF assms]
  by blast


lemma seeds_ok: "\<forall>d \<in> set doctors. seed_ok d"
  by (simp add: doctors_def mk_doctor_def seed_ok_def parse_hm_def int_of_str_def digit_val_def
      day_mapping_def)

lemma day_slots_grid:
  assumes "seed_ok d" and "day_name \<in> set (available_days d)"
  shows "\<exists>start_t end_t rs.
      parse_hm (working_hours_start d) = Some start_t \<and>
      parse_hm (working_hours_end d) = Some end_t \<and>
      day_slots k d day_name = Some rs \<and> slot_grid_ok start_t end_t rs"
proof -
  from assms obtain start_t end_t day_num where
    p: "parse_hm (working_hours_start d) = Some start_t" "parse_hm (working_hours_end d) = Some end_t"
      "day_mapping day_name = Some day_num" and m: "snd start_t = 0 \<or> snd start_t = 30"
    by (auto simp: seed_ok_def split: option.splits)
  have "day_slots k d day_name = Some (slot_loop k day_num end_t start_t)"
    using p by (simp add: day_slots_def)
  with p slot_loop_grid [OF m] show ?thesis by blast
qed

lemma those_map_Some:
  "(\<forall>x \<in> set xs. f x \<noteq> None) \<Longrightarrow> those (map f xs) = Some (map (\<lambda>x. the (f x)) xs)"
  by (induction xs) auto

lemma doctor_slots_Some:
  assumes "seed_ok d"
  shows "doctor_slots k d =
     Some (concat (map (\<lambda>day_name. the (day_slots k d day_name)) (available_days d)))"
proof -
  have "\<forall>day_name \<in> set (available_days d). day_slots k d day_name \<noteq> None"
    using day_slots_grid [OF assms] by fastforce
  from those_map_Some [of "available_days d" "day_slots k d", OF this] show ?thesis
    by (simp add: doctor_slots_def)
qed

text \<open>The generation runs through: no day name is unknown and all working hours parse.\<close>

lemma time_slots_generated:
  "time_slots =
     Some (concat (map (\<lambda>i. the (doctor_slots i (doctors ! (i - 1)))) [1..<11]))"
proof -
  have len: "length doctors = 10" by (simp add: doctors_def)
  have "\<forall>i \<in> set [1..<11]. doctor_slots i (doctors ! (i - 1)) \<noteq> None"
  proof
    fix i :: nat assume "i \<in> set [1..<11]"
    then have "i - 1 < length doctors" using len by auto
    then have "doctors ! (i - 1) \<in> set doctors" by (rule nth_mem)
    with seeds_ok have "seed_ok (doctors ! (i - 1))" by blast
    from doctor_slots_Some [OF this] show "doctor_slots i (doctors ! (i - 1)) \<noteq> None" by simp
  qed
  from those_map_Some [of "[1..<11]" "\<lambda>i. doctor_slots i (doctors ! (i - 1))", OF this]
  show ?thesis by (simp add: time_slots_def)
qed

text \<open>
  Claim C9. For every seeded doctor and every day in that doctor's available days, the slots
  that \<open>create_services_database\<close> generates for the doctor on that day are 30 minutes wide,
  contiguous (each slot ends where the next one starts), pairwise non-overlapping and contained
  in the doctor's working hours; in particular no slot ends after the working hours do.
  The doctors are the ten rows the function itself inserts, with ids 1 to 10 in order. All of
  them start on the hour or the half hour, which is what \<open>slot_loop_grid\<close> needs: the loop
  resets the minute to 0 on an hour change.
\<close>

theorem seeded_slot_grid:
  "\<forall>i < length doctors. \<forall>day_name \<in> set (available_days (doctors ! i)).
     \<exists>start_t end_t rs.
       parse_hm (working_hours_start (doctors ! i)) = Some start_t \<and>
       parse_hm (working_hours_end (doctors ! i)) = Some end_t \<and>
       day_slots (Suc i) (doctors ! i) day_name = Some rs \<and>
       slot_grid_ok start_t end_t rs"
  using seeds_ok day_slots_grid by (metis nth_mem)

theorem seeded_slot_grid_witness:
  "3 < length doctors \<and> ''Monday'' \<in> set (available_days (doctors ! 3)) \<and>
   (\<exists>rs. day_slots 4 (doctors ! 3) ''Monday'' = Some rs \<and> slot_grid_ok (8, 30) (16, 30) rs)"
proof -
  have a: "3 < length doctors" by (simp add: doctors_def)
  have b: "''Monday'' \<in> set (available_days (doctors ! 3))" by (simp add: doctors_def mk_doctor_def)
  have c: "parse_hm (working_hours_start (doctors ! 3)) = Some (8, 30)"
    "parse_hm (working_hours_end (doctors ! 3)) = Some (16, 30)"
    by (simp_all add: doctors_def mk_doctor_def parse_hm_def int_of_str_def digit_val_def)
  from seeded_slot_grid [rule_format, OF a b] c a b show ?thesis by auto
qed

section \<open>Facts about the booking tool\<close>



text \<open>The result and the new state of a booking that passes the three queries.\<close>

lemma book_ok:
  assumes "select_doctor (services_conn s) (bd_doctor_id b) = Some (d, cl)"
    and "select_service (services_conn s) (bd_service_id b) = Some sv"
    and "slot_check (services_conn s) (bd_time_slot_id b) (bd_doctor_id b) = Some sl"
    and "valid_hm (start_time sl)"
  shows "book_appointment_comprehensive s now h ai b =
     (Inr (details_of (appointment_row now h ai b d cl sv sl)
             (fst (insert_enhanced_appointment (appointments_conn s) (appointment_row now h ai b d cl sv sl)))),
      \<lparr>services_conn = mark_unavailable (services_conn s) (the (bd_time_slot_id b)),
       appointments_conn =
         insert_status_history
           (snd (insert_enhanced_appointment (appointments_conn s) (appointment_row now h ai b d cl sv sl)))
           \<lparr>h_appointment_id =
              fst (insert_enhanced_appointment (appointments_conn s) (appointment_row now h ai b d cl sv sl)),
            old_status = None, new_status = ''scheduled'', changed_by = ''ai_assistant'',
            reason = ''Initial booking''\<rparr>\<rparr>)"
  using assms by (simp add: book_appointment_comprehensive_def Let_def split_beta)

lemma book_success_D:
  assumes "fst (book_appointment_comprehensive s now h ai b) = Inr det"
  shows "\<exists>d cl sv sl.
      select_doctor (services_conn s) (bd_doctor_id b) = Some (d, cl) \<and>
      select_service (services_conn s) (bd_service_id b) = Some sv \<and>
      slot_check (services_conn s) (bd_time_slot_id b) (bd_doctor_id b) = Some sl \<and>
      valid_hm (start_time sl)"
  using assms
  by (auto simp: book_appointment_comprehensive_def Let_def split_beta split: option.splits if_splits)

lemma book_failure_D:
  assumes "fst (book_appointment_comprehensive s now h ai b) = Inl e"
  shows "snd (book_appointment_comprehensive s now h ai b) = s"
  using assms
  by (auto simp: book_appointment_comprehensive_def Let_def split_beta split: option.splits if_splits)


lemma insert_None:
  assumes "fst (insert_enhanced_appointment l r) = None"
  shows "snd (insert_enhanced_appointment l r) = l"
  using assms by (auto simp: insert_enhanced_appointment_def split: if_splits)

lemma select_appointment_history [simp]:
  "select_appointment (insert_status_history l h) a = select_appointment l a"
  by (simp add: select_appointment_def insert_status_history_def)


subsection \<open>The queries on the small catalog\<close>

lemma ex_queries:
  "select_doctor (services_conn ex_state) (bd_doctor_id ex_booking) = Some (ex_doctor1, ex_clinic)"
  "select_service (services_conn ex_state) (bd_service_id ex_booking) = Some ex_service"
  "slot_check (services_conn ex_state) (bd_time_slot_id ex_booking) (bd_doctor_id ex_booking) = Some ex_slot1"
  "valid_hm (start_time ex_slot1)"
  by (simp_all add: ex_state_def ex_catalog_def ex_booking_def select_doctor_def select_service_def
      slot_check_def ex_doctor1_def mk_doctor_def ex_slot1_def valid_hm_def)



subsection \<open>Status updates and the state after one booking\<close>



lemma update_ok:
  assumes "select_appointment (appointments_conn s) a = Some cur"
  shows "update_appointment_status s a st r w =
     (Inr \<lparr>u_appointment_id = a, u_old_status = status cur, u_new_status = st\<rparr>,
      s\<lparr>appointments_conn :=
          insert_status_history
            ((appointments_conn s)\<lparr>enhanced_appointments :=
               (enhanced_appointments (appointments_conn s))[a - 1 := cur\<lparr>status := st\<rparr>]\<rparr>)
            \<lparr>h_appointment_id = Some a, old_status = Some (status cur), new_status = st,
             changed_by = w, reason = r\<rparr>\<rparr>)"
  using assms by (simp add: update_appointment_status_def Let_def)

lemma update_missing:
  assumes "select_appointment (appointments_conn s) a = None"
  shows "update_appointment_status s a st r w = (Inl Appointment_not_found, s)"
  using assms by (simp add: update_appointment_status_def Let_def)

lemma update_keeps_catalog [simp]:
  "services_conn (snd (update_appointment_status s a st r w)) = services_conn s"
  by (simp add: update_appointment_status_def Let_def split: option.splits)

lemma book_unavailable_slot:
  assumes "time_slots_table (services_conn s) t = Some sl" and "\<not> is_available sl"
    and "bd_time_slot_id b = Some t"
  shows "fst (book_appointment_comprehensive s now h ai b) \<in>
           {Inl Doctor_not_found, Inl Service_not_found, Inl Time_slot_not_available}"
  using assms
  by (auto simp: book_appointment_comprehensive_def slot_check_def split: option.splits)

section \<open>The end time of an appointment\<close>



section \<open>Failure of the summary generator\<close>



section \<open>The appointment date\<close>




section \<open>A failed write of the appointment row\<close>

text \<open>
  Claim C3 says that when the ledger write fails the slot is released and the booking is
  reported as failed. On the small catalog a request with pain level 11 passes the three
  queries and is refused by the \<open>CHECK\<close> of the table; the tool does not look at the result of
  the \<open>INSERT\<close>: no row is stored, the slot that was free is marked unavailable, and the result
  is a success whose appointment id is null.
\<close>

theorem failed_insert_not_compensated:
  "fst (book_appointment_comprehensive ex_state ex_now [] Generation_failed
          (ex_booking\<lparr>bd_pain_level := Some 11\<rparr>)) =
     Inr (details_of (appointment_row ex_now [] Generation_failed (ex_booking\<lparr>bd_pain_level := Some 11\<rparr>)
            ex_doctor1 ex_clinic ex_service ex_slot1) None) \<and>
   enhanced_appointments (appointments_conn (snd (book_appointment_comprehensive ex_state ex_now []
      Generation_failed (ex_booking\<lparr>bd_pain_level := Some 11\<rparr>)))) = [] \<and>
   time_slots_table (services_conn ex_state) 1 = Some ex_slot1 \<and> is_available ex_slot1 \<and>
   time_slots_table (services_conn (snd (book_appointment_comprehensive ex_state ex_now []
      Generation_failed (ex_booking\<lparr>bd_pain_level := Some 11\<rparr>)))) 1 =
     Some (ex_slot1\<lparr>is_available := False\<rparr>)"
proof -
  let ?b = "ex_booking\<lparr>bd_pain_level := Some 11\<rparr>"
  let ?row = "appointment_row ex_now [] Generation_failed ?b ex_doctor1 ex_clinic ex_service ex_slot1"
  have c: "select_doctor (services_conn ex_state) (bd_doctor_id ?b) = Some (ex_doctor1, ex_clinic)"
    "select_service (services_conn ex_state) (bd_service_id ?b) = Some ex_service"
    "slot_check (services_conn ex_state) (bd_time_slot_id ?b) (bd_doctor_id ?b) = Some ex_slot1"
    "valid_hm (start_time ex_slot1)"
    using ex_queries by simp_all
  have ins: "insert_enhanced_appointment (appointments_conn ex_state) ?row = (None, appointments_conn ex_state)"
    by (simp add: insert_enhanced_appointment_def insert_accepted_def appointment_row_def Let_def
        pain_level_ok_def)
  have t: "the (bd_time_slot_id ?b) = 1" by (simp add: ex_booking_def)
  show ?thesis
    by (simp add: book_ok [OF c] ins t)
       (simp add: ex_state_def ex_catalog_def ex_ledger_def mark_unavailable_def insert_status_history_def
         ex_slot1_def ex_booking_def)
qed

text \<open>
  Claim C3, amended. Whenever the booking tool does not report success (doctor, service or slot
  not found, or a slot start that is no time of day), it has written nothing: both stores, and
  with them every slot's availability flag, are as before the call.
\<close>

theorem failed_booking_changes_nothing:
  assumes "fst (book_appointment_comprehensive s now h ai b) = Inl e"
  shows "snd (book_appointment_comprehensive s now h ai b) = s"
  using assms by (rule book_failure_D)

theorem failed_booking_changes_nothing_witness:
  "fst (book_appointment_comprehensive ex_state ex_now [] Generation_failed
          (ex_booking\<lparr>bd_doctor_id := Some 2\<rparr>)) = Inl Time_slot_not_available \<and>
   snd (book_appointment_comprehensive ex_state ex_now [] Generation_failed
          (ex_booking\<lparr>bd_doctor_id := Some 2\<rparr>)) = ex_state"
proof -
  have e: "fst (book_appointment_comprehensive ex_state ex_now [] Generation_failed
          (ex_booking\<lparr>bd_doctor_id := Some 2\<rparr>)) = Inl Time_slot_not_available"
    by (simp add: book_appointment_comprehensive_def ex_state_def ex_catalog_def ex_booking_def
        select_doctor_def select_service_def slot_check_def ex_doctor2_def mk_doctor_def ex_slot1_def)
  from failed_booking_changes_nothing [OF e] e show ?thesis by simp
qed

section \<open>Cancellation and the slot\<close>




section \<open>What a run keeps of the ledger\<close>

lemma book_state_cases:
  "snd (book_appointment_comprehensive s now h ai b) = s \<or>
   (\<exists>row. snd (book_appointment_comprehensive s now h ai b) =
      \<lparr>services_conn = mark_unavailable (services_conn s) (the (bd_time_slot_id b)),
       appointments_conn =
         insert_status_history (snd (insert_enhanced_appointment (appointments_conn s) row))
           \<lparr>h_appointment_id = fst (insert_enhanced_appointment (appointments_conn s) row),
            old_status = None, new_status = ''scheduled'', changed_by = ''ai_assistant'',
            reason = ''Initial booking''\<rparr>\<rparr>)"
proof (cases "fst (book_appointment_comprehensive s now h ai b)")
  case (Inl e)
  then show ?thesis by (simp add: book_failure_D)
next
  case (Inr det)
  from book_success_D [OF this] obtain d cl sv sl where
    "select_doctor (services_conn s) (bd_doctor_id b) = Some (d, cl)"
    "select_service (services_conn s) (bd_service_id b) = Some sv"
    "slot_check (services_conn s) (bd_time_slot_id b) (bd_doctor_id b) = Some sl"
    "valid_hm (start_time sl)" by blast
  from book_ok [OF this, of now h ai] show ?thesis by auto
qed

text \<open>The rows of the ledger after one call, in terms of the rows before.\<close>

lemma insert_rows:
  "enhanced_appointments (snd (insert_enhanced_appointment l r)) = enhanced_appointments l \<or>
   enhanced_appointments (snd (insert_enhanced_appointment l r)) = enhanced_appointments l @ [r]"
  by (simp add: insert_enhanced_appointment_def)

lemma insert_history [simp]:
  "appointment_status_history (snd (insert_enhanced_appointment l r)) = appointment_status_history l"
  by (simp add: insert_enhanced_appointment_def)




lemma select_appointment_bounds:
  "select_appointment l a = Some row \<Longrightarrow> 0 < a \<and> a \<le> length (enhanced_appointments l)"
  by (auto simp: select_appointment_def split: if_splits)


lemma intelligent_keeps_ledger:
  "enhanced_appointments (appointments_conn (snd (book_appointment_intelligent s now b))) =
     enhanced_appointments (appointments_conn s)"
  "appointment_status_history (appointments_conn (snd (book_appointment_intelligent s now b))) =
     appointment_status_history (appointments_conn s)"
  by (simp_all add: book_appointment_intelligent_def Let_def split: option.splits)





section \<open>Snapshots\<close>



section \<open>The audit trail\<close>









lemma book_wf:
  assumes "ledger_wf s"
  shows "ledger_wf (snd (book_appointment_comprehensive s now h ai b))"
proof -
  from book_state_cases [of s now h ai b] show ?thesis
  proof
    assume "snd (book_appointment_comprehensive s now h ai b) = s"
    with assms show ?thesis by simp
  next
    assume "\<exists>row. snd (book_appointment_comprehensive s now h ai b) =
      \<lparr>services_conn = mark_unavailable (services_conn s) (the (bd_time_slot_id b)),
       appointments_conn =
         insert_status_history (snd (insert_enhanced_appointment (appointments_conn s) row))
           \<lparr>h_appointment_id = fst (insert_enhanced_appointment (appointments_conn s) row),
            old_status = None, new_status = ''scheduled'', changed_by = ''ai_assistant'',
            reason = ''Initial booking''\<rparr>\<rparr>"
    then obtain row where e: "snd (book_appointment_comprehensive s now h ai b) =
      \<lparr>services_conn = mark_unavailable (services_conn s) (the (bd_time_slot_id b)),
       appointments_conn =
         insert_status_history (snd (insert_enhanced_appointment (appointments_conn s) row))
           \<lparr>h_appointment_id = fst (insert_enhanced_appointment (appointments_conn s) row),
            old_status = None, new_status = ''scheduled'', changed_by = ''ai_assistant'',
            reason = ''Initial booking''\<rparr>\<rparr>" ..
    show ?thesis
      using assms unfolding e
      by (auto simp: ledger_wf_def insert_status_history_def insert_enhanced_appointment_def
          split: option.splits)
  qed
qed

lemma update_wf:
  assumes "ledger_wf s"
  shows "ledger_wf (snd (update_appointment_status s a st r w))"
proof (cases "select_appointment (appointments_conn s) a")
  case None
  with assms show ?thesis by (simp add: update_missing)
next
  case (Some cur)
  from select_appointment_bounds [OF Some] assms show ?thesis
    unfolding update_ok [OF Some]
    by (auto simp: ledger_wf_def insert_status_history_def split: option.splits)
qed

lemma step_wf:
  assumes "ledger_wf s"
  shows "ledger_wf (step s c)"
proof (cases c)
  case (Book now h ai b)
  with assms show ?thesis by (simp add: book_wf)
next
  case (Book_intelligent now b)
  with assms show ?thesis
    by (simp add: ledger_wf_def intelligent_keeps_ledger cong: option.case_cong)
next
  case (Update_status a st r w)
  with assms show ?thesis by (simp add: update_wf)
next
  case (Edit_catalog f)
  with assms show ?thesis by (simp add: ledger_wf_def cong: option.case_cong)
qed

lemma run_wf: "ledger_wf s \<Longrightarrow> ledger_wf (run s calls)"
  unfolding run_def by (induction calls arbitrary: s) (simp_all add: step_wf)



section \<open>Appointment numbers\<close>

text \<open>The number of a booking is the prefix \<open>APT-\<close> and the clock time to the second.\<close>

lemma appointment_number_format:
  assumes "fst (book_appointment_comprehensive s now h ai b) = Inr det"
  shows "r_appointment_number det = ''APT-'' @ strftime_compact now"
proof -
  from book_success_D [OF assms] obtain d cl sv sl where
    c: "select_doctor (services_conn s) (bd_doctor_id b) = Some (d, cl)"
      "select_service (services_conn s) (bd_service_id b) = Some sv"
      "slot_check (services_conn s) (bd_time_slot_id b) (bd_doctor_id b) = Some sl"
      "valid_hm (start_time sl)"
    by blast
  from assms have "det = details_of (appointment_row now h ai b d cl sv sl)
      (fst (insert_enhanced_appointment (appointments_conn s) (appointment_row now h ai b d cl sv sl)))"
    by (simp add: book_ok [OF c])
  then show ?thesis
    by (simp add: details_of_def appointment_row_def Let_def generate_appointment_number_def)
qed



section \<open>Refusal of a slot\<close>

text \<open>
  In \<open>book_appointment_comprehensive\<close>, once the doctor and the service are found, the answer
  is \<open>Time slot not available\<close> exactly when the slot is missing, belongs to another doctor or
  is not available.
\<close>

lemma slot_check_None_iff:
  "slot_check c (Some t) (Some d) = None \<longleftrightarrow>
     (case time_slots_table c t of
        None \<Rightarrow> True
      | Some sl \<Rightarrow> slot_doctor_id sl \<noteq> d \<or> \<not> is_available sl)"
  by (simp add: slot_check_def split: option.splits)

lemma comprehensive_slot_unavailable_iff:
  assumes "select_doctor (services_conn s) (bd_doctor_id b) = Some (d, cl)"
    and "select_service (services_conn s) (bd_service_id b) = Some sv"
  shows "fst (book_appointment_comprehensive s now h ai b) = Inl Time_slot_not_available \<longleftrightarrow>
         slot_check (services_conn s) (bd_time_slot_id b) (bd_doctor_id b) = None"
  using assms
  by (auto simp: book_appointment_comprehensive_def Let_def split_beta split: option.splits)

lemma mark_unavailable_slot:
  "time_slots_table c t = Some sl \<Longrightarrow>
   time_slots_table (mark_unavailable c t) t = Some (sl\<lparr>is_available := False\<rparr>)"
  by (simp add: mark_unavailable_def)

lemma booked_slot_unavailable:
  assumes "fst (book_appointment_comprehensive s now h ai b) = Inr det"
  shows "\<exists>t sl. bd_time_slot_id b = Some t \<and>
      time_slots_table (services_conn (snd (book_appointment_comprehensive s now h ai b))) t = Some sl \<and>
      \<not> is_available sl"
proof -
  from book_success_D [OF assms] obtain d cl sv sl where
    c: "select_doctor (services_conn s) (bd_doctor_id b) = Some (d, cl)"
      "select_service (services_conn s) (bd_service_id b) = Some sv"
      "slot_check (services_conn s) (bd_time_slot_id b) (bd_doctor_id b) = Some sl"
      "valid_hm (start_time sl)"
    by blast
  from c(3) obtain t where t: "bd_time_slot_id b = Some t" "time_slots_table (services_conn s) t = Some sl"
    by (auto simp: slot_check_def split: option.splits if_splits)
  have "time_slots_table (services_conn (snd (book_appointment_comprehensive s now h ai b))) t =
      Some (sl\<lparr>is_available := False\<rparr>)"
    unfolding book_ok [OF c] using t by (simp add: mark_unavailable_slot)
  with t(1) show ?thesis by simp
qed

lemma second_booking_refused:
  assumes "fst (book_appointment_comprehensive s now h ai b) = Inr det"
    and "bd_time_slot_id b' = bd_time_slot_id b"
  shows "fst (book_appointment_comprehensive (snd (book_appointment_comprehensive s now h ai b)) now' h' ai' b') \<in>
           {Inl Doctor_not_found, Inl Service_not_found, Inl Time_slot_not_available}"
proof -
  from booked_slot_unavailable [OF assms(1)] obtain t sl where
    "bd_time_slot_id b = Some t"
    "time_slots_table (services_conn (snd (book_appointment_comprehensive s now h ai b))) t = Some sl"
    "\<not> is_available sl" by blast
  with assms(2) book_unavailable_slot [of _ t sl b'] show ?thesis by simp
qed

lemma intelligent_ok:
  assumes "slot_check_joined (services_conn s) (bd_service_id b) (bd_time_slot_id b) = Some (sl, dn, sn, cn)"
  shows "book_appointment_intelligent s now b =
     (Inr \<lparr>sr_doctor = dn, sr_service = sn, sr_clinic = cn,
           sr_date = get_or (strftime_date now) (bd_appointment_date b), sr_time = start_time sl,
           sr_duration = ''30 minutes''\<rparr>,
      \<lparr>services_conn = mark_unavailable (services_conn s) (the (bd_time_slot_id b)),
       appointments_conn = (appointments_conn s)\<lparr>appointments := appointments (appointments_conn s) @
          [\<lparr>a_patient_id = bd_patient_id b, a_doctor_id = bd_doctor_id b,
            a_service_id = bd_service_id b, a_clinic_id = 1,
            a_appointment_date = get_or (strftime_date now) (bd_appointment_date b),
            a_appointment_time = start_time sl, a_duration_minutes = 30,
            a_patient_complaint = get_or [] (bd_complaint b),
            a_symptoms_description = get_or [] (bd_symptoms b),
            a_urgency_level = get_or ''normal'' (bd_urgency b),
            a_status = ''scheduled''\<rparr>]\<rparr>\<rparr>)"
  using assms by (simp add: book_appointment_intelligent_def Let_def)

lemma mark_unavailable_keeps:
  assumes "time_slots_table c t = Some sl" and "\<not> is_available sl"
  shows "\<exists>sl'. time_slots_table (mark_unavailable c t') t = Some sl' \<and> \<not> is_available sl'"
  using assms by (auto simp: mark_unavailable_def split: option.splits)

lemma intelligent_unavailable_slot:
  assumes "time_slots_table (services_conn s) t = Some sl" and "\<not> is_available sl"
    and "bd_time_slot_id b = Some t"
  shows "book_appointment_intelligent s now b = (Inl Time_slot_not_available, s)"
  using assms
  by (simp add: book_appointment_intelligent_def slot_check_joined_def Let_def split: option.splits)

lemma intelligent_state_cases:
  "snd (book_appointment_intelligent s now b) = s \<or>
   services_conn (snd (book_appointment_intelligent s now b)) =
     mark_unavailable (services_conn s) (the (bd_time_slot_id b))"
  by (auto simp: book_appointment_intelligent_def Let_def split: option.splits)

lemma step_keeps_unavailable:
  assumes "time_slots_table (services_conn s) t = Some sl" and "\<not> is_available sl"
    and "is_tool_call c"
  shows "\<exists>sl'. time_slots_table (services_conn (step s c)) t = Some sl' \<and> \<not> is_available sl'"
proof (cases c)
  case (Book now h ai b)
  from book_state_cases [of s now h ai b] show ?thesis
  proof
    assume "snd (book_appointment_comprehensive s now h ai b) = s"
    with Book assms show ?thesis by simp
  next
    assume "\<exists>row. snd (book_appointment_comprehensive s now h ai b) =
      \<lparr>services_conn = mark_unavailable (services_conn s) (the (bd_time_slot_id b)),
       appointments_conn =
         insert_status_history (snd (insert_enhanced_appointment (appointments_conn s) row))
           \<lparr>h_appointment_id = fst (insert_enhanced_appointment (appointments_conn s) row),
            old_status = None, new_status = ''scheduled'', changed_by = ''ai_assistant'',
            reason = ''Initial booking''\<rparr>\<rparr>"
    then have "services_conn (snd (book_appointment_comprehensive s now h ai b)) =
        mark_unavailable (services_conn s) (the (bd_time_slot_id b))"
      by auto
    with Book mark_unavailable_keeps [OF assms(1,2)] show ?thesis by simp
  qed
next
  case (Book_intelligent now b)
  from intelligent_state_cases [of s now b] show ?thesis
  proof
    assume "snd (book_appointment_intelligent s now b) = s"
    with Book_intelligent assms show ?thesis by simp
  next
    assume "services_conn (snd (book_appointment_intelligent s now b)) =
      mark_unavailable (services_conn s) (the (bd_time_slot_id b))"
    with Book_intelligent mark_unavailable_keeps [OF assms(1,2)] show ?thesis by simp
  qed
next
  case (Update_status a st r w)
  with assms show ?thesis by simp
next
  case (Edit_catalog f)
  with assms(3) show ?thesis by simp
qed

lemma run_keeps_unavailable:
  assumes "time_slots_table (services_conn s) t = Some sl" and "\<not> is_available sl"
    and "list_all is_tool_call calls"
  shows "\<exists>sl'. time_slots_table (services_conn (run s calls)) t = Some sl' \<and> \<not> is_available sl'"
  using assms
proof (induction calls arbitrary: s sl)
  case Nil
  then show ?case by (simp add: run_def)
next
  case (Cons c calls)
  from Cons.prems have "is_tool_call c" "list_all is_tool_call calls" by simp_all
  from step_keeps_unavailable [OF Cons.prems(1,2) this(1)] obtain sl' where
    "time_slots_table (services_conn (step s c)) t = Some sl'" "\<not> is_available sl'" by blast
  from Cons.IH [OF this \<open>list_all is_tool_call calls\<close>] show ?case by (simp add: run_def)
qed

text \<open>
  After a successful booking of a slot, no later booking of that slot by either tool
  succeeds, whatever tool calls come in between.
\<close>

lemma one_booking_per_slot:
  assumes "fst (book_appointment_comprehensive s now h ai b) = Inr det"
    and "list_all is_tool_call calls"
    and "bd_time_slot_id b' = bd_time_slot_id b"
  shows "fst (book_appointment_comprehensive
                (run (snd (book_appointment_comprehensive s now h ai b)) calls) now' h' ai' b') \<in>
           {Inl Doctor_not_found, Inl Service_not_found, Inl Time_slot_not_available}"
    and "fst (book_appointment_intelligent
                (run (snd (book_appointment_comprehensive s now h ai b)) calls) now' b') =
           Inl Time_slot_not_available"
proof -
  from booked_slot_unavailable [OF assms(1)] obtain t sl where
    t: "bd_time_slot_id b = Some t"
    and "time_slots_table (services_conn (snd (book_appointment_comprehensive s now h ai b))) t = Some sl"
    and "\<not> is_available sl" by blast
  from run_keeps_unavailable [OF this(2,3) assms(2)] obtain sl' where
    u: "time_slots_table (services_conn (run (snd (book_appointment_comprehensive s now h ai b)) calls)) t = Some sl'"
      "\<not> is_available sl'" by blast
  from t assms(3) have b': "bd_time_slot_id b' = Some t" by simp
  from book_unavailable_slot [OF u b']
  show "fst (book_appointment_comprehensive
                (run (snd (book_appointment_comprehensive s now h ai b)) calls) now' h' ai' b') \<in>
           {Inl Doctor_not_found, Inl Service_not_found, Inl Time_slot_not_available}" .
  from intelligent_unavailable_slot [OF u b']
  show "fst (book_appointment_intelligent
                (run (snd (book_appointment_comprehensive s now h ai b)) calls) now' b') =
           Inl Time_slot_not_available" by simp
qed

text \<open>
  Claim C1 says that a reserve attempt is refused exactly when the slot is missing, belongs to
  a doctor other than the one supplied, or is not available. \<open>book_appointment_intelligent\<close>
  does not compare the slot's doctor with the supplied one: on the small catalog, slot 1 belongs
  to doctor 1 and the request names doctor 2. \<open>book_appointment_comprehensive\<close> refuses it;
  \<open>book_appointment_intelligent\<close> books it, stores an appointment for doctor 2 and marks the
  slot of doctor 1 unavailable.
\<close>

theorem intelligent_books_slot_of_other_doctor:
  "time_slots_table (services_conn ex_state) 1 = Some ex_slot1 \<and> slot_doctor_id ex_slot1 = 1 \<and>
   is_available ex_slot1 \<and>
   fst (book_appointment_comprehensive ex_state ex_now [] Generation_failed
          (ex_booking\<lparr>bd_doctor_id := Some 2\<rparr>)) = Inl Time_slot_not_available \<and>
   fst (book_appointment_intelligent ex_state ex_now (ex_booking\<lparr>bd_doctor_id := Some 2\<rparr>)) =
     Inr \<lparr>sr_doctor = ''Dr. Rajesh Kumar'', sr_service = Some ''General Checkup'',
          sr_clinic = ''HealthCare Plus Clinic'', sr_date = ''2024-01-07'', sr_time = (10, 0),
          sr_duration = ''30 minutes''\<rparr> \<and>
   map a_doctor_id (appointments (appointments_conn
     (snd (book_appointment_intelligent ex_state ex_now (ex_booking\<lparr>bd_doctor_id := Some 2\<rparr>))))) = [Some 2] \<and>
   time_slots_table (services_conn
     (snd (book_appointment_intelligent ex_state ex_now (ex_booking\<lparr>bd_doctor_id := Some 2\<rparr>)))) 1 =
     Some (ex_slot1\<lparr>is_available := False\<rparr>)"
proof -
  let ?b = "ex_booking\<lparr>bd_doctor_id := Some 2\<rparr>"
  have j: "slot_check_joined (services_conn ex_state) (bd_service_id ?b) (bd_time_slot_id ?b) =
      Some (ex_slot1, ''Dr. Rajesh Kumar'', Some ''General Checkup'', ''HealthCare Plus Clinic'')"
    by (simp add: slot_check_joined_def select_doctor_def select_service_def ex_state_def ex_catalog_def
        ex_booking_def ex_slot1_def ex_doctor1_def mk_doctor_def ex_clinic_def ex_service_def)
  have c: "fst (book_appointment_comprehensive ex_state ex_now [] Generation_failed ?b) =
      Inl Time_slot_not_available"
    by (simp add: book_appointment_comprehensive_def ex_state_def ex_catalog_def ex_booking_def
        select_doctor_def select_service_def slot_check_def ex_doctor2_def mk_doctor_def ex_slot1_def)
  have s: "time_slots_table (services_conn ex_state) 1 = Some ex_slot1"
    by (simp add: ex_state_def ex_catalog_def)
  have r: "fst (book_appointment_intelligent ex_state ex_now ?b) =
     Inr \<lparr>sr_doctor = ''Dr. Rajesh Kumar'', sr_service = Some ''General Checkup'',
          sr_clinic = ''HealthCare Plus Clinic'', sr_date = ''2024-01-07'', sr_time = (10, 0),
          sr_duration = ''30 minutes''\<rparr>"
    unfolding intelligent_ok [OF j] by (simp add: ex_booking_def get_or_def ex_slot1_def)
  have a: "map a_doctor_id (appointments (appointments_conn (snd (book_appointment_intelligent ex_state ex_now ?b)))) =
      [Some 2]"
    unfolding intelligent_ok [OF j] by (simp add: ex_state_def ex_ledger_def)
  have m: "time_slots_table (services_conn (snd (book_appointment_intelligent ex_state ex_now ?b))) 1 =
      Some (ex_slot1\<lparr>is_available := False\<rparr>)"
    unfolding intelligent_ok [OF j] using s by (simp add: ex_booking_def mark_unavailable_def)
  from s c r a m show ?thesis by (simp add: ex_slot1_def)
qed

end
